theory Spec2Isabelle
  imports Main "HOL-Library.Char_ord" "HOL-Library.List_Lexorder" "HOL-Library.Word"
begin

section \<open>Password reset service of noddit-server\<close>

text \<open>
  A shallow embedding of \<^verbatim>\<open>src/password-reset/password-reset.service.ts\<close>
  (class \<^verbatim>\<open>PasswordResetService\<close>). The two public methods, \<^verbatim>\<open>forgotPassword\<close> and
  \<^verbatim>\<open>resetPassword\<close>, are functions from a world (the two tables and the mail outbox) to an
  outcome and the world afterwards. Every \<^verbatim>\<open>throw\<close> and every rejected \<^verbatim>\<open>await\<close> is a value
  \<open>Inl e\<close>; the world is returned in that case too, because an error raised late leaves the
  earlier writes in place.

  Strings are byte strings (\<open>char list\<close>); every string the service compares is ASCII
  (hexadecimal digests and tokens, ISO time stamps), where JavaScript's comparison by code
  unit and \<^verbatim>\<open>Buffer.from\<close>'s UTF-8 encoding agree with the order and the length of bytes.
\<close>

subsection \<open>Entities and the world\<close>

text \<open>
  \<^verbatim>\<open>UserEntity\<close> and \<^verbatim>\<open>PasswordResetEntity\<close> are declared outside the service file; the
  fields are those the service reads and writes. The relation \<^verbatim>\<open>reset.user\<close> is stored as
  its foreign key: \<open>userId\<close> is what the source reads as \<^verbatim>\<open>reset.user.id\<close> and what the
  column \<^verbatim>\<open>"passwordreset"."userId"\<close> holds.
\<close>

record UserEntity =
  user_id :: nat
  email :: string
  password :: string
  deletedAt :: "string option"

record PasswordResetEntity =
  reset_id :: nat
  userId :: nat
  token :: string
  expiredAt :: string

record Mail =
  mail_to :: string
  subject :: string
  body :: string

record MessageResponse =
  message :: string

record world =
  users :: "UserEntity list"
  resets :: "PasswordResetEntity list"
  resetSeq :: nat
  outbox :: "Mail list"

subsection \<open>Errors and the environment of one call\<close>

text \<open>The awaited calls into the outside world; each of them can reject.\<close>

datatype io =
    UserFindOne
  | ResetSave
  | SendMail
  | ResetFindOne
  | UserGetOne
  | Argon2Hash
  | UserSave

text \<open>
  The four Nest exceptions the service throws itself, the \<^verbatim>\<open>RangeError\<close> of Node's
  \<^verbatim>\<open>crypto.timingSafeEqual\<close> (thrown when the two buffers differ in byte length), and the
  rejection of an awaited call that the service does not catch.
\<close>

datatype error =
    NotFoundException string
  | BadRequestException string
  | ConflictException string
  | InternalServerErrorException
  | RangeError
  | Rejected io string

text \<open>
  What one call reads from outside the two tables: the configuration, the library
  primitives (HMAC-SHA256, whose value is a word of 256 bits, and argon2), the random
  token drawn, the clock, and which awaited calls reject (\<open>rejects env c = Some code\<close>).
  \<open>defaultExpiredAt\<close> is the value the store gives the column \<^verbatim>\<open>expiredAt\<close> of a row
  created during this call: the service never sets it.
\<close>

record env =
  hmacSecret :: string
  host :: string
  hmac_sha256 :: "string \<Rightarrow> string \<Rightarrow> 256 word"
  argon2_hash :: "string \<Rightarrow> string"
  randomBytes32_hex :: string
  now :: string
  defaultExpiredAt :: string
  rejects :: "io \<Rightarrow> string option"

subsection \<open>TypeORM query builders\<close>

text \<open>
  A query builder is a description of a query. \<^verbatim>\<open>where\<close>, \<^verbatim>\<open>andWhere\<close>, \<^verbatim>\<open>addSelect\<close> and
  \<^verbatim>\<open>delete\<close> only change the description; the store is touched by the terminal calls
  \<^verbatim>\<open>getOne\<close> (select) and \<^verbatim>\<open>execute\<close> (delete). A builder is not a promise.
\<close>

datatype queryType = Select | Delete

record 'a QueryBuilder =
  queryType :: queryType
  wheres :: "('a \<Rightarrow> bool) list"

definition createQueryBuilder :: "'a QueryBuilder" where
  "createQueryBuilder = \<lparr>queryType = Select, wheres = []\<rparr>"

definition where_qb :: "('a \<Rightarrow> bool) \<Rightarrow> 'a QueryBuilder \<Rightarrow> 'a QueryBuilder" where
  "where_qb c qb = qb\<lparr>wheres := [c]\<rparr>"

definition andWhere :: "('a \<Rightarrow> bool) \<Rightarrow> 'a QueryBuilder \<Rightarrow> 'a QueryBuilder" where
  "andWhere c qb = qb\<lparr>wheres := wheres qb @ [c]\<rparr>"

definition addSelect :: "'a QueryBuilder \<Rightarrow> 'a QueryBuilder" where
  \<comment> \<open>the rows of the model always carry the password column\<close>
  "addSelect qb = qb"

definition delete_qb :: "'a QueryBuilder \<Rightarrow> 'a QueryBuilder" where
  "delete_qb qb = qb\<lparr>queryType := Delete\<rparr>"

definition matches :: "'a QueryBuilder \<Rightarrow> 'a \<Rightarrow> bool" where
  "matches qb row = list_all (\<lambda>c. c row) (wheres qb)"

definition getOne :: "'a QueryBuilder \<Rightarrow> 'a list \<Rightarrow> 'a option" where
  "getOne qb rows = find (matches qb) rows"

definition execute :: "'a QueryBuilder \<Rightarrow> 'a list \<Rightarrow> 'a list" where
  "execute qb rows =
     (case queryType qb of
        Delete \<Rightarrow> filter (\<lambda>row. \<not> matches qb row) rows
      | Select \<Rightarrow> rows)"

subsection \<open>Repositories and the mailer\<close>

definition findOne_email :: "string \<Rightarrow> UserEntity list \<Rightarrow> UserEntity option" where
  \<comment> \<open>\<^verbatim>\<open>userRepository.findOne({ email })\<close>\<close>
  "findOne_email e us = find (\<lambda>u. email u = e) us"

definition findOne_id :: "nat \<Rightarrow> PasswordResetEntity list \<Rightarrow> PasswordResetEntity option" where
  \<comment> \<open>\<^verbatim>\<open>passwordResetRepository.findOne(id)\<close>\<close>
  "findOne_id rid rs = find (\<lambda>r. reset_id r = rid) rs"

definition save_user :: "UserEntity \<Rightarrow> UserEntity list \<Rightarrow> UserEntity list" where
  \<comment> \<open>\<^verbatim>\<open>userRepository.save(user)\<close>: the row with the entity's id is replaced, or inserted\<close>
  "save_user u us =
     (if list_ex (\<lambda>v. user_id v = user_id u) us
      then map (\<lambda>v. if user_id v = user_id u then u else v) us
      else us @ [u])"

definition pending :: "env \<Rightarrow> nat \<Rightarrow> PasswordResetEntity \<Rightarrow> bool" where
  "pending env uid r = (userId r = uid \<and> expiredAt r > now env)"

text \<open>
  Modelled from the spec: the declaration of \<^verbatim>\<open>PasswordResetEntity\<close> (its uniqueness
  constraint and the default of \<^verbatim>\<open>expiredAt\<close>) is not part of the service file. The store
  assigns the id, refuses a second row for an account that has a row not yet expired
  (PostgreSQL's unique violation, code 23505), and otherwise commits the whole row.
  The result is the driver's error code or the saved entity with the new world.
\<close>

definition save_reset ::
  "env \<Rightarrow> nat \<Rightarrow> string \<Rightarrow> world \<Rightarrow> string + (PasswordResetEntity \<times> world)" where
  "save_reset env uid digest w =
     (case rejects env ResetSave of
        Some code \<Rightarrow> Inl code
      | None \<Rightarrow>
          if list_ex (pending env uid) (resets w) then Inl ''23505''
          else
            (let saved = \<lparr>reset_id = resetSeq w, userId = uid, token = digest,
                          expiredAt = defaultExpiredAt env\<rparr>
             in Inr (saved, w\<lparr>resets := resets w @ [saved], resetSeq := Suc (resetSeq w)\<rparr>)))"

definition sendMail :: "env \<Rightarrow> Mail \<Rightarrow> world \<Rightarrow> (error + unit) \<times> world" where
  "sendMail env m w =
     (case rejects env SendMail of
        Some code \<Rightarrow> (Inl (Rejected SendMail code), w)
      | None \<Rightarrow> (Inr (), w\<lparr>outbox := outbox w @ [m]\<rparr>))"

subsection \<open>Private helpers of the service\<close>

fun toString_nat :: "nat \<Rightarrow> string" where
  "toString_nat n =
     (if n < 10 then [char_of (48 + n)]
      else toString_nat (n div 10) @ [char_of (48 + n mod 10)])"

declare toString_nat.simps [simp del]

definition plaintextToken :: "env \<Rightarrow> string" where
  "plaintextToken env = randomBytes32_hex env"

definition url :: "env \<Rightarrow> nat \<Rightarrow> string \<Rightarrow> string" where
  "url env resetId plaintext =
     host env @ ''/password/reset?id='' @ toString_nat resetId @ ''&token='' @ plaintext"

text \<open>
  \<^verbatim>\<open>.digest('hex')\<close>: the 32 bytes of the code in lower-case hexadecimal, most significant
  digit first. Whatever the key and the message, the digest is 64 characters long.
\<close>

definition hexdigit :: "nat \<Rightarrow> char" where
  "hexdigit n = ''0123456789abcdef'' ! n"

definition digest_hex :: "256 word \<Rightarrow> string" where
  "digest_hex w =
     map (\<lambda>i. hexdigit (unat (take_bit 4 (drop_bit (4 * (63 - i)) w)))) [0..<64]"

definition hashedToken :: "env \<Rightarrow> string \<Rightarrow> string" where
  "hashedToken env plaintext = digest_hex (hmac_sha256 env (hmacSecret env) plaintext)"

definition Buffer_from :: "string \<Rightarrow> char list" where
  "Buffer_from s = s"

definition timingSafeEqual :: "char list \<Rightarrow> char list \<Rightarrow> error + bool" where
  "timingSafeEqual a b = (if length a \<noteq> length b then Inl RangeError else Inr (a = b))"

definition isResetValid :: "env \<Rightarrow> string \<Rightarrow> PasswordResetEntity \<Rightarrow> error + bool" where
  "isResetValid env plaintext reset =
     (let hash = hashedToken env plaintext in
      case timingSafeEqual (Buffer_from hash) (Buffer_from (token reset)) of
        Inl e \<Rightarrow> Inl e
      | Inr eq \<Rightarrow> Inr (eq \<and> expiredAt reset > now env))"

definition resetUserPassword ::
  "env \<Rightarrow> UserEntity \<Rightarrow> string \<Rightarrow> world \<Rightarrow> (error + MessageResponse) \<times> world" where
  "resetUserPassword env user pw w =
     (case rejects env Argon2Hash of
        Some code \<Rightarrow> (Inl (Rejected Argon2Hash code), w)
      | None \<Rightarrow>
          (let user' = user\<lparr>password := argon2_hash env pw\<rparr> in
           case rejects env UserSave of
             Some code \<Rightarrow> (Inl (Rejected UserSave code), w)
           | None \<Rightarrow>
               (Inr \<lparr>message = ''Password reset successfully''\<rparr>,
                w\<lparr>users := save_user user' (users w)\<rparr>)))"

text \<open>
  \<^verbatim>\<open>Promise.all([p, v])\<close> with a promise \<open>p\<close> and a value \<open>v\<close> that is not a promise:
  it rejects when \<open>p\<close> rejects and otherwise fulfils with the pair; \<open>v\<close> is passed through.
\<close>

definition Promise_all ::
  "(error + 'a) \<times> world \<Rightarrow> 'b \<Rightarrow> (error + 'a \<times> 'b) \<times> world" where
  "Promise_all p v =
     (case p of
        (Inl e, w) \<Rightarrow> (Inl e, w)
      | (Inr a, w) \<Rightarrow> (Inr (a, v), w))"

subsection \<open>The two public methods\<close>

text \<open>
  The fields of the request objects are passed as arguments: \<^verbatim>\<open>forgotPasswordDto.email\<close>,
  \<^verbatim>\<open>query.id\<close>, \<^verbatim>\<open>query.token\<close> and \<^verbatim>\<open>resetPasswordDto.password\<close>.
  \<^verbatim>\<open>forgotPassword\<close> (lines 29 to 63) maps the driver's code 23505 to the conflict and any
  other failure of the save to the internal server error; a rejection of the mailer after
  the save is not caught.
\<close>

definition forgotPassword ::
  "env \<Rightarrow> string \<Rightarrow> world \<Rightarrow> (error + MessageResponse) \<times> world" where
  "forgotPassword env mail w =
     (case rejects env UserFindOne of
        Some code \<Rightarrow> (Inl (Rejected UserFindOne code), w)
      | None \<Rightarrow>
     (case findOne_email mail (users w) of
        None \<Rightarrow> (Inl (NotFoundException ''User not found''), w)
      | Some user \<Rightarrow>
          (let plaintext = plaintextToken env in
           case save_reset env (user_id user) (hashedToken env plaintext) w of
             Inl code \<Rightarrow>
               (if code = ''23505''
                then (Inl (ConflictException ''Password reset email has already been sent''), w)
                else (Inl InternalServerErrorException, w))
           | Inr (savedReset, w1) \<Rightarrow>
               (case sendMail env
                       \<lparr>mail_to = mail, subject = ''Reset your password'',
                        body = url env (reset_id savedReset) plaintext\<rparr> w1 of
                  (Inl e, w2) \<Rightarrow> (Inl e, w2)
                | (Inr _, w2) \<Rightarrow> (Inr \<lparr>message = ''Email sent to '' @ email user\<rparr>, w2)))))"

text \<open>
  \<^verbatim>\<open>resetPassword\<close> (lines 65 to 100). The condition of the \<^verbatim>\<open>if\<close> short-circuits: the
  request is validated only if it was found, the account is queried only if the request
  is valid. The array given to \<^verbatim>\<open>Promise.all\<close> (lines 85 to 91) holds the promise of
  \<^verbatim>\<open>resetUserPassword\<close> and the builder returned by \<^verbatim>\<open>.delete()\<close>; the source makes no
  terminal call on that builder, so the model does not apply \<open>execute\<close> to it.
\<close>

definition invalidToken :: error where
  "invalidToken = BadRequestException ''Invalid password reset token''"

definition resetPassword ::
  "env \<Rightarrow> nat \<Rightarrow> string \<Rightarrow> string \<Rightarrow> world \<Rightarrow> (error + MessageResponse) \<times> world" where
  "resetPassword env rid plaintext pw w =
     (case rejects env ResetFindOne of
        Some code \<Rightarrow> (Inl (Rejected ResetFindOne code), w)
      | None \<Rightarrow>
     (case findOne_id rid (resets w) of
        None \<Rightarrow> (Inl invalidToken, w)
      | Some reset \<Rightarrow>
     (case isResetValid env plaintext reset of
        Inl e \<Rightarrow> (Inl e, w)
      | Inr valid \<Rightarrow>
          if \<not> valid then (Inl invalidToken, w)
          else
     (case rejects env UserGetOne of
        Some code \<Rightarrow> (Inl (Rejected UserGetOne code), w)
      | None \<Rightarrow>
     (case getOne
             (addSelect
               (andWhere (\<lambda>u. deletedAt u = None)
                 (where_qb (\<lambda>u. user_id u = userId reset) createQueryBuilder)))
             (users w) of
        None \<Rightarrow> (Inl invalidToken, w)
      | Some user \<Rightarrow>
     (case Promise_all
             (resetUserPassword env user pw w)
             (delete_qb
               (where_qb (\<lambda>r :: PasswordResetEntity. userId r = userId reset) createQueryBuilder)) of
        (Inl e, w1) \<Rightarrow> (Inl e, w1)
      | (Inr (res, _), w1) \<Rightarrow>
     (case sendMail env
             \<lparr>mail_to = email user, subject = ''Password reset'',
              body = ''Your password was successfully reset''\<rparr> w1 of
        (Inl e, w2) \<Rightarrow> (Inl e, w2)
      | (Inr _, w2) \<Rightarrow> (Inr \<lparr>message = message res\<rparr>, w2))))))))"

subsection \<open>Expiry as the specification states it\<close>

text \<open>
  The specification speaks of the expiry as an instant and asks for a comparison of
  instants; the source compares the two time stamps as strings. \<open>iso_millis\<close> is the instant
  that a time stamp in the format of \<^verbatim>\<open>DateTime.toString()\<close>
  (\<^verbatim>\<open>YYYY-MM-DDTHH:MM:SS.mmm+HH:MM\<close>) denotes, in milliseconds since 1970-01-01T00:00Z, and
  \<open>spec_expired\<close> the specification's test, to be compared with the source's
  \<^verbatim>\<open>expiredAt > DateTime.local().toString()\<close>.
\<close>

definition decimal :: "string \<Rightarrow> int" where
  "decimal s = foldl (\<lambda>v c. 10 * v + (of_char c - 48)) 0 s"

definition field :: "nat \<Rightarrow> nat \<Rightarrow> string \<Rightarrow> int" where
  "field i n s = decimal (take n (drop i s))"

definition days_from_civil :: "int \<Rightarrow> int \<Rightarrow> int \<Rightarrow> int" where
  "days_from_civil y m d =
     (let y' = (if m \<le> 2 then y - 1 else y);
          yoe = y' mod 400;
          doy = (153 * ((m + 9) mod 12) + 2) div 5 + d - 1
      in (y' div 400) * 146097 + (yoe * 365 + yoe div 4 - yoe div 100 + doy) - 719468)"

definition iso_millis :: "string \<Rightarrow> int" where
  "iso_millis s =
     (let days = days_from_civil (field 0 4 s) (field 5 2 s) (field 8 2 s);
          offset = (if s ! 23 = CHR ''-'' then - 1 else 1) * (field 24 2 s * 60 + field 27 2 s)
      in (((days * 24 + field 11 2 s) * 60 + field 14 2 s - offset) * 60 + field 17 2 s) * 1000
         + field 20 3 s)"

definition spec_expired :: "env \<Rightarrow> PasswordResetEntity \<Rightarrow> bool" where
  "spec_expired env r = (iso_millis (expiredAt r) \<le> iso_millis (now env))"

subsection \<open>A concrete scenario\<close>

text \<open>
  The inputs at which the theorems below are evaluated. \<open>hmac_known\<close> stands for
  HMAC-SHA256: on the two listed tokens under the key \<^verbatim>\<open>noddit-hmac-secret\<close> it returns the
  true codes (\<open>digestA\<close> and \<open>digestB\<close> are their hexadecimal forms), elsewhere a checksum
  of key and message reduced to 256 bits, which has the shape of a code and not its value.
  The account \<^verbatim>\<open>u1\<close> has no pending request in \<open>world0\<close>.
\<close>

definition tokenA :: string where
  "tokenA = ''00112233445566778899aabbccddeeff00112233445566778899aabbccddeeff''"

definition macA :: "256 word" where
  "macA = 0xa8f2eb7d15089a4441b78a8896332424034ea6dfbce1733aa22a9a7178c8c7ae"

definition digestA :: string where
  "digestA = ''a8f2eb7d15089a4441b78a8896332424034ea6dfbce1733aa22a9a7178c8c7ae''"

definition tokenB :: string where
  "tokenB = ''ffeeddccbbaa99887766554433221100ffeeddccbbaa99887766554433221100''"

definition macB :: "256 word" where
  "macB = 0x219041dd8358b24f0eb9d4b5b507918356741d9f58019cfd375a03c55e9af4ca"


definition checksum :: "string \<Rightarrow> 256 word" where
  "checksum s = word_of_int (foldl (\<lambda>h c. h * 257 + of_char c + 1) 0 s)"

definition hmac_known :: "string \<Rightarrow> string \<Rightarrow> 256 word" where
  "hmac_known k m =
     (if k = ''noddit-hmac-secret'' \<and> m = tokenA then macA
      else if k = ''noddit-hmac-secret'' \<and> m = tokenB then macB
      else checksum (k @ '':'' @ m))"

definition env0 :: env where
  "env0 =
     \<lparr>hmacSecret = ''noddit-hmac-secret'', host = ''https://noddit.example'',
      hmac_sha256 = hmac_known, argon2_hash = (\<lambda>p. ''$argon2i$'' @ p),
      randomBytes32_hex = tokenA, now = ''2026-11-03T10:30:00.000+00:00'',
      defaultExpiredAt = ''2026-11-03T11:30:00.000+00:00'', rejects = (\<lambda>_. None)\<rparr>"

definition user1 :: UserEntity where
  "user1 =
     \<lparr>user_id = 1, email = ''u1@example.com'', password = ''$argon2i$old'', deletedAt = None\<rparr>"

definition world0 :: world where
  "world0 = \<lparr>users = [user1], resets = [], resetSeq = 1, outbox = []\<rparr>"

text \<open>
  The worlds the scenario passes through: \<open>world1\<close> after \<^verbatim>\<open>forgotPassword\<close> for
  \<^verbatim>\<open>u1@example.com\<close>, \<open>world2\<close> after the first redemption. \<open>world_gone\<close> is \<open>world1\<close>
  with the account soft-deleted. In \<open>world_short\<close> the token column of the request holds a
  string that is not a digest of 64 characters.
\<close>

definition reset1 :: PasswordResetEntity where
  "reset1 =
     \<lparr>reset_id = 1, userId = 1, token = digestA,
      expiredAt = ''2026-11-03T11:30:00.000+00:00''\<rparr>"

definition resetMail :: Mail where
  "resetMail =
     \<lparr>mail_to = ''u1@example.com'', subject = ''Reset your password'',
      body = ''https://noddit.example/password/reset?id=1&token=00112233445566778899aabbccddeeff00112233445566778899aabbccddeeff''\<rparr>"

definition confirmationMail :: Mail where
  "confirmationMail =
     \<lparr>mail_to = ''u1@example.com'', subject = ''Password reset'',
      body = ''Your password was successfully reset''\<rparr>"

definition world1 :: world where
  "world1 = \<lparr>users = [user1], resets = [reset1], resetSeq = 2, outbox = [resetMail]\<rparr>"

definition world2 :: world where
  "world2 =
     \<lparr>users = [user1\<lparr>password := ''$argon2i$NewPass123!''\<rparr>], resets = [reset1],
      resetSeq = 2, outbox = [resetMail, confirmationMail]\<rparr>"

definition world_gone :: world where
  "world_gone =
     world1\<lparr>users := [user1\<lparr>deletedAt := Some ''2026-11-03T10:00:00.000+00:00''\<rparr>]\<rparr>"



text \<open>
  Variants of the environment: half an hour after the request expired (with the user
  directory unreachable), the store reporting a unique violation, the mail transport
  refusing the connection.
\<close>

definition env_late :: env where
  "env_late =
     env0\<lparr>now := ''2026-11-03T12:00:00.000+00:00'',
          rejects := (\<lambda>c. if c = UserGetOne then Some ''08006'' else None)\<rparr>"


definition env_nomail :: env where
  "env_nomail =
     env0\<lparr>rejects := (\<lambda>c. if c = SendMail then Some ''ECONNREFUSED'' else None)\<rparr>"


text \<open>
  The night in which summer time ends, on a server whose local zone goes from +02:00 back
  to +01:00 at 03:00. The request is issued at 01:30 (+02:00) and expires one hour
  later, at 02:30 (+02:00), which is 00:30 UTC; it is redeemed at 02:10 (+01:00), which is
  01:10 UTC, forty minutes after the expiry.
\<close>

definition env_issue :: env where
  "env_issue =
     env0\<lparr>now := ''2026-10-25T01:30:00.000+02:00'',
          defaultExpiredAt := ''2026-10-25T02:30:00.000+02:00''\<rparr>"

definition env_dst :: env where
  "env_dst = env0\<lparr>now := ''2026-10-25T02:10:00.000+01:00''\<rparr>"

definition reset_dst :: PasswordResetEntity where
  "reset_dst = reset1\<lparr>expiredAt := ''2026-10-25T02:30:00.000+02:00''\<rparr>"

definition world_dst :: world where
  "world_dst = world1\<lparr>resets := [reset_dst]\<rparr>"

section \<open>Auxiliary facts\<close>

subsection \<open>Queries and validation\<close>

lemma active_user_query:
  "getOne
     (addSelect
       (andWhere (\<lambda>u. deletedAt u = None)
         (where_qb (\<lambda>u. user_id u = uid) createQueryBuilder))) us =
   find (\<lambda>u. user_id u = uid \<and> deletedAt u = None) us"
  by (simp add: getOne_def addSelect_def andWhere_def where_qb_def createQueryBuilder_def
      matches_def [abs_def])

text \<open>What the delete builder of \<^verbatim>\<open>resetPassword\<close> would remove, were it executed.\<close>

lemma executed_delete_clears_account:
  "execute (delete_qb (where_qb (\<lambda>r. userId r = uid) createQueryBuilder)) rs =
   filter (\<lambda>r. userId r \<noteq> uid) rs"
  by (simp add: execute_def delete_qb_def where_qb_def createQueryBuilder_def
      matches_def [abs_def])

text \<open>Every digest the service computes has 64 characters.\<close>

lemma length_digest_hex: "length (digest_hex w) = 64"
  by (simp add: digest_hex_def)

lemma length_hashedToken: "length (hashedToken env t) = 64"
  by (simp add: hashedToken_def length_digest_hex)

text \<open>
  The verification on a stored string of 64 characters, and on a stored string of any
  other length.
\<close>

lemma isResetValid_digest_row:
  "length (token r) = 64 \<Longrightarrow>
   isResetValid env t r = Inr (hashedToken env t = token r \<and> expiredAt r > now env)"
  by (simp add: isResetValid_def timingSafeEqual_def Buffer_from_def length_hashedToken)

lemma isResetValid_other_length:
  "length (token r) \<noteq> 64 \<Longrightarrow> isResetValid env t r = Inl RangeError"
  by (simp add: isResetValid_def timingSafeEqual_def Buffer_from_def length_hashedToken)

text \<open>
  \<^verbatim>\<open>resetPassword\<close> never writes the table of reset requests: the delete builder is built
  and handed to \<^verbatim>\<open>Promise.all\<close>, and \<^verbatim>\<open>execute\<close> is not called on it.
\<close>

lemma resetPassword_keeps_resets:
  "resets (snd (resetPassword env rid plaintext pw w)) = resets w"
  by (auto simp: resetPassword_def Promise_all_def resetUserPassword_def sendMail_def
      split: option.splits sum.splits prod.splits if_splits)

text \<open>A rejected password update leaves the world as it was.\<close>

lemma resetUserPassword_rejected:
  "fst (resetUserPassword env user pw w) = Inl e \<Longrightarrow>
   snd (resetUserPassword env user pw w) = w"
  by (auto simp: resetUserPassword_def split: option.splits)

text \<open>
  When the hash or the save of the user rejects, \<^verbatim>\<open>Promise.all\<close> rejects: the call
  fails, and neither the password nor the outbox has changed.
\<close>

lemma resetPassword_update_rejected:
  assumes "rejects env ResetFindOne = None"
    and "findOne_id rid (resets w) = Some r"
    and "isResetValid env plaintext r = Inr True"
    and "rejects env UserGetOne = None"
    and "find (\<lambda>u. user_id u = userId r \<and> deletedAt u = None) (users w) = Some user"
  shows
    "(rejects env Argon2Hash = Some code \<longrightarrow>
        resetPassword env rid plaintext pw w = (Inl (Rejected Argon2Hash code), w)) \<and>
     (rejects env Argon2Hash = None \<longrightarrow> rejects env UserSave = Some code \<longrightarrow>
        resetPassword env rid plaintext pw w = (Inl (Rejected UserSave code), w))"
  using assms
  by (simp add: resetPassword_def active_user_query Promise_all_def resetUserPassword_def)

text \<open>
  Every row \<^verbatim>\<open>forgotPassword\<close> adds carries the digest of the token it drew, a string
  of 64 characters.
\<close>

lemma forgotPassword_stores_digest:
  assumes "r \<in> set (resets (snd (forgotPassword env e w)))"
  shows "r \<in> set (resets w) \<or> token r = hashedToken env (plaintextToken env)"
  using assms
  by (auto simp: forgotPassword_def save_reset_def sendMail_def Let_def
      split: option.splits if_splits)

lemma forgotPassword_keeps_digest_length:
  assumes "\<forall>r \<in> set (resets w). length (token r) = 64"
    and "r \<in> set (resets (snd (forgotPassword env e w)))"
  shows "length (token r) = 64"
  using forgotPassword_stores_digest [OF assms(2)] assms(1)
  by (auto simp: length_hashedToken)

text \<open>
  On a row whose stored token has the length of a digest, every failed validation gives
  the one \<^verbatim>\<open>BadRequestException\<close> and leaves the world unchanged; the expiry meant is
  the source's comparison of strings.
\<close>

lemma resetPassword_refusals_on_digest_rows:
  assumes "rejects env ResetFindOne = None"
    and "findOne_id rid (resets w) = Some r"
    and "length (token r) = 64"
  shows
    "(token r \<noteq> hashedToken env t \<longrightarrow>
        resetPassword env rid t pw w =
          (Inl (BadRequestException ''Invalid password reset token''), w)) \<and>
     (\<not> expiredAt r > now env \<longrightarrow>
        resetPassword env rid t pw w =
          (Inl (BadRequestException ''Invalid password reset token''), w)) \<and>
     (rejects env UserGetOne = None \<longrightarrow>
      (\<forall>u \<in> set (users w). user_id u = userId r \<longrightarrow> deletedAt u \<noteq> None) \<longrightarrow>
        resetPassword env rid t pw w =
          (Inl (BadRequestException ''Invalid password reset token''), w))"
proof -
  note valid = isResetValid_digest_row [OF assms(3)]
  have gone: "find (\<lambda>u. user_id u = userId r \<and> deletedAt u = None) (users w) = None"
    if "\<forall>u \<in> set (users w). user_id u = userId r \<longrightarrow> deletedAt u \<noteq> None"
    using that by (auto simp: find_None_iff)
  show ?thesis
    using assms(1,2) gone
    by (auto simp: resetPassword_def invalidToken_def valid active_user_query)
qed

lemma resetPassword_unknown_id:
  assumes "rejects env ResetFindOne = None"
    and "\<forall>r \<in> set (resets w). reset_id r \<noteq> rid"
  shows "resetPassword env rid t pw w =
           (Inl (BadRequestException ''Invalid password reset token''), w)"
proof -
  have "findOne_id rid (resets w) = None"
    using assms(2) by (simp add: findOne_id_def find_None_iff)
  with assms(1) show ?thesis
    by (simp add: resetPassword_def invalidToken_def)
qed

text \<open>
  On a row of any other length the call fails with the \<^verbatim>\<open>RangeError\<close>, whatever the
  token presented, the expiry and the account.
\<close>

lemma resetPassword_other_length:
  assumes "rejects env ResetFindOne = None"
    and "findOne_id rid (resets w) = Some r"
    and "length (token r) \<noteq> 64"
  shows "resetPassword env rid t pw w = (Inl RangeError, w)"
  using assms
  by (simp add: resetPassword_def isResetValid_other_length)


subsection \<open>Evaluation in the scenario\<close>


lemma digest_hex_macA: "digest_hex macA = digestA"
  by code_simp


lemma hashedToken_A: "hashedToken env0 tokenA = digestA"
  by (simp add: hashedToken_def env0_def hmac_known_def digest_hex_macA)


lemma hashedToken_nomail: "hashedToken env_nomail = hashedToken env0"
  by (simp add: hashedToken_def env_nomail_def fun_eq_iff)


lemma findOne_email_user1: "findOne_email ''u1@example.com'' [user1] = Some user1"
  by (simp add: findOne_email_def user1_def)


text \<open>
  The refusals in the scenario: an unknown id, another token, the request expired (the
  user directory is not asked), the account soft-deleted.
\<close>

lemma refusals_in_scenario:
  "resetPassword env0 99 tokenA ''NewPass123!'' world0 =
     (Inl (BadRequestException ''Invalid password reset token''), world0) \<and>
   resetPassword env0 1 tokenB ''NewPass123!'' world1 =
     (Inl (BadRequestException ''Invalid password reset token''), world1) \<and>
   resetPassword env_late 1 tokenA ''NewPass123!'' world1 =
     (Inl (BadRequestException ''Invalid password reset token''), world1) \<and>
   resetPassword env0 1 tokenA ''NewPass123!'' world_gone =
     (Inl (BadRequestException ''Invalid password reset token''), world_gone)"
  by code_simp

section \<open>Properties\<close>

subsection \<open>Redemption does not consume the request\<close>

text \<open>
  C1. The claim: after a successful \<^verbatim>\<open>resetPassword\<close> the redeemed request and its
  siblings are gone, so a second call with the same id and token fails with the
  invalid-token error. The service builds the delete query for the account's requests but
  never executes it (contrast the user query two statements above it, which ends in
  \<^verbatim>\<open>getOne\<close>). Evaluated end to end: \<^verbatim>\<open>forgotPassword\<close> for \<^verbatim>\<open>u1@example.com\<close> issues request
  1; redeeming it succeeds and leaves the row in place; redeeming the same id and token
  again succeeds a second time and sets the password once more.
\<close>

theorem resetPassword_replay_succeeds:
  "forgotPassword env0 ''u1@example.com'' world0 =
     (Inr \<lparr>message = ''Email sent to u1@example.com''\<rparr>, world1) \<and>
   resetPassword env0 1 tokenA ''NewPass123!'' world1 =
     (Inr \<lparr>message = ''Password reset successfully''\<rparr>, world2) \<and>
   fst (resetPassword env0 1 tokenA ''Again'' world2) =
     Inr \<lparr>message = ''Password reset successfully''\<rparr> \<and>
   map password (users (snd (resetPassword env0 1 tokenA ''Again'' world2))) =
     [''$argon2i$Again'']"
  by code_simp

subsection \<open>Success is reported although nothing was deleted\<close>

text \<open>
  C2. The claim: the caller is told success only when both the password update and the
  deletion of the account's requests have completed. In the scenario the call returns
  its success message and the confirmation e-mail is sent, while the request of the
  account is still stored: the deletion was never issued.
\<close>

theorem resetPassword_success_without_deletion:
  "fst (resetPassword env0 1 tokenA ''NewPass123!'' world1) =
     Inr \<lparr>message = ''Password reset successfully''\<rparr> \<and>
   resets (snd (resetPassword env0 1 tokenA ''NewPass123!'' world1)) = [reset1] \<and>
   userId reset1 = user_id user1 \<and>
   outbox (snd (resetPassword env0 1 tokenA ''NewPass123!'' world1)) =
     outbox world1 @ [confirmationMail]"
  by code_simp

subsection \<open>A failed validation that is not the generic error\<close>


subsection \<open>Digests of different length\<close>


subsection \<open>Expiry by string, not by instant\<close>

text \<open>
  C5. The claim: a request whose expiry instant is not strictly in the future is refused
  with the invalid-token error, also when the digest matches. The source compares the
  time stamps as strings. In the night in which summer time ends, the request issued by
  \<^verbatim>\<open>forgotPassword\<close> at 01:30 (+02:00) expires at 02:30 (+02:00); at 02:10 (+01:00) that
  instant lies forty minutes in the past (\<open>spec_expired\<close>), the stored string is still
  the greater one, and \<^verbatim>\<open>resetPassword\<close> with the mailed token succeeds and sets the
  password.
\<close>

theorem resetPassword_accepts_expired_instant:
  "forgotPassword env_issue ''u1@example.com'' world0 =
     (Inr \<lparr>message = ''Email sent to u1@example.com''\<rparr>, world_dst) \<and>
   findOne_id 1 (resets world_dst) = Some reset_dst \<and>
   iso_millis (now env_dst) - iso_millis (expiredAt reset_dst) = 40 * 60 * 1000 \<and>
   spec_expired env_dst reset_dst \<and>
   token reset_dst = hashedToken env_dst tokenA \<and>
   fst (resetPassword env_dst 1 tokenA ''NewPass123!'' world_dst) =
     Inr \<lparr>message = ''Password reset successfully''\<rparr> \<and>
   map password (users (snd (resetPassword env_dst 1 tokenA ''NewPass123!'' world_dst))) =
     [''$argon2i$NewPass123!'']"
  by code_simp

subsection \<open>A second request while one is pending\<close>



subsection \<open>Digest and verification\<close>




subsection \<open>Unknown e-mail address\<close>

text \<open>
  C8. For every e-mail address that no account of the user directory carries,
  \<^verbatim>\<open>forgotPassword\<close> fails with \<^verbatim>\<open>NotFoundException\<close> and leaves the world as it was: no
  reset request is created and no e-mail is sent.
\<close>

theorem forgotPassword_unknown_email:
  assumes "rejects env UserFindOne = None"
    and "\<forall>u \<in> set (users w). email u \<noteq> e"
  shows "forgotPassword env e w = (Inl (NotFoundException ''User not found''), w)"
proof -
  have "findOne_email e (users w) = None"
    using assms(2) by (simp add: findOne_email_def find_None_iff)
  with assms(1) show ?thesis
    by (simp add: forgotPassword_def)
qed

theorem forgotPassword_unknown_email_witness:
  "forgotPassword env0 ''nobody@example.com'' world0 =
     (Inl (NotFoundException ''User not found''), world0)"
  using forgotPassword_unknown_email [of env0 world0 "''nobody@example.com''"]
  by (simp add: env0_def world0_def user1_def)

subsection \<open>Mail failure after the save\<close>

text \<open>
  C9. When the store has saved the new request and the dispatch of the e-mail then
  rejects, \<^verbatim>\<open>forgotPassword\<close> surfaces that rejection, and the world is the one the save
  left: the saved row is the last of the table, the earlier rows are as they were, and
  nothing is in the outbox that was not there.
\<close>

theorem forgotPassword_mail_failure_keeps_row:
  assumes "rejects env UserFindOne = None"
    and "findOne_email e (users w) = Some u"
    and "save_reset env (user_id u) (hashedToken env (plaintextToken env)) w =
           Inr (saved, w1)"
    and "rejects env SendMail = Some code"
  shows "forgotPassword env e w = (Inl (Rejected SendMail code), w1) \<and>
         resets w1 = resets w @ [saved] \<and> outbox w1 = outbox w"
  using assms
  by (auto simp: forgotPassword_def save_reset_def sendMail_def Let_def
      split: option.splits if_splits)

theorem forgotPassword_mail_failure_keeps_row_witness:
  "forgotPassword env_nomail ''u1@example.com'' world0 =
     (Inl (Rejected SendMail ''ECONNREFUSED''), world1\<lparr>outbox := []\<rparr>) \<and>
   resets (world1\<lparr>outbox := []\<rparr>) = resets world0 @ [reset1]"
proof -
  have drawn: "plaintextToken env_nomail = tokenA"
    by (simp add: plaintextToken_def env_nomail_def env0_def)
  have saved:
    "save_reset env_nomail (user_id user1)
       (hashedToken env_nomail (plaintextToken env_nomail)) world0 =
     Inr (reset1, world1\<lparr>outbox := []\<rparr>)"
    by (simp add: drawn hashedToken_nomail hashedToken_A)
      (simp add: save_reset_def env_nomail_def env0_def world0_def world1_def reset1_def
        user1_def Let_def)
  show ?thesis
    using forgotPassword_mail_failure_keeps_row
        [of env_nomail "''u1@example.com''" world0 user1 reset1
          "world1\<lparr>outbox := []\<rparr>" "''ECONNREFUSED''"]
      saved findOne_email_user1
    by (simp add: world0_def env_nomail_def)
qed

subsection \<open>A refused redemption changes nothing\<close>

text \<open>
  C10. Whenever \<^verbatim>\<open>resetPassword\<close> fails with a \<^verbatim>\<open>BadRequestException\<close> (the generic
  invalid-token error is the only one it throws), the world is the one it started from:
  no password is changed, no reset request is deleted, no e-mail is sent.
\<close>

theorem resetPassword_invalid_token_no_change:
  "fst (resetPassword env rid plaintext pw w) = Inl (BadRequestException msg) \<Longrightarrow>
   snd (resetPassword env rid plaintext pw w) = w"
  by (auto simp: resetPassword_def Promise_all_def resetUserPassword_def sendMail_def
        invalidToken_def
      split: option.splits sum.splits prod.splits if_splits)

theorem resetPassword_invalid_token_no_change_witness:
  "fst (resetPassword env0 99 tokenA ''NewPass123!'' world0) =
     Inl (BadRequestException ''Invalid password reset token'') \<and>
   snd (resetPassword env0 99 tokenA ''NewPass123!'' world0) = world0"
proof -
  have refused: "fst (resetPassword env0 99 tokenA ''NewPass123!'' world0) =
      Inl (BadRequestException ''Invalid password reset token'')"
    by (simp add: resetPassword_def invalidToken_def env0_def world0_def findOne_id_def)
  from refused resetPassword_invalid_token_no_change [OF refused] show ?thesis
    by simp
qed

end
